theory Spec2Isabelle
  imports Complex_Main "HOL-Library.Word"
begin

section \<open>Values of type double\<close>

text \<open>
  A C++ \<^verbatim>\<open>double\<close> is a finite number, one of the two infinities, or a NaN.
  Arithmetic on the special values follows IEEE 754; arithmetic on finite values is
  taken as exact (no rounding, no overflow to infinity, no signed zero: a zero divisor
  counts as +0). The program's doubles round. A property below that orders or bounds
  computed values therefore states the range of inputs on which it holds of the rounded
  values as well, and the other properties do not use what the finite operations
  return.
\<close>

datatype double = Val real | PosInf | NegInf | NaN

fun dadd :: "double \<Rightarrow> double \<Rightarrow> double" where
  "dadd NaN y = NaN"
| "dadd x NaN = NaN"
| "dadd PosInf NegInf = NaN"
| "dadd NegInf PosInf = NaN"
| "dadd PosInf y = PosInf"
| "dadd x PosInf = PosInf"
| "dadd NegInf y = NegInf"
| "dadd x NegInf = NegInf"
| "dadd (Val a) (Val b) = Val (a + b)"

definition inf_of_sign :: "bool \<Rightarrow> double" where
  "inf_of_sign negative = (if negative then NegInf else PosInf)"

fun dmul :: "double \<Rightarrow> double \<Rightarrow> double" where
  "dmul NaN y = NaN"
| "dmul x NaN = NaN"
| "dmul (Val a) (Val b) = Val (a * b)"
| "dmul (Val a) PosInf = (if a = 0 then NaN else inf_of_sign (a < 0))"
| "dmul (Val a) NegInf = (if a = 0 then NaN else inf_of_sign (0 < a))"
| "dmul PosInf (Val b) = (if b = 0 then NaN else inf_of_sign (b < 0))"
| "dmul NegInf (Val b) = (if b = 0 then NaN else inf_of_sign (0 < b))"
| "dmul PosInf PosInf = PosInf"
| "dmul NegInf NegInf = PosInf"
| "dmul PosInf NegInf = NegInf"
| "dmul NegInf PosInf = NegInf"

fun ddiv :: "double \<Rightarrow> double \<Rightarrow> double" where
  "ddiv NaN y = NaN"
| "ddiv x NaN = NaN"
| "ddiv (Val a) (Val b) =
     (if b = 0 then (if a = 0 then NaN else inf_of_sign (a < 0)) else Val (a / b))"
| "ddiv (Val a) PosInf = Val 0"
| "ddiv (Val a) NegInf = Val 0"
| "ddiv PosInf (Val b) = inf_of_sign (b < 0)"
| "ddiv NegInf (Val b) = inf_of_sign (0 \<le> b)"
| "ddiv PosInf PosInf = NaN"
| "ddiv PosInf NegInf = NaN"
| "ddiv NegInf PosInf = NaN"
| "ddiv NegInf NegInf = NaN"

text \<open>The comparisons \<^verbatim>\<open><\<close> and \<^verbatim>\<open><=\<close>: false as soon as one side is a NaN.\<close>

fun dless :: "double \<Rightarrow> double \<Rightarrow> bool" where
  "dless NaN y = False"
| "dless x NaN = False"
| "dless (Val a) (Val b) = (a < b)"
| "dless x NegInf = False"
| "dless PosInf y = False"
| "dless NegInf y = True"
| "dless x PosInf = True"

fun dle :: "double \<Rightarrow> double \<Rightarrow> bool" where
  "dle NaN y = False"
| "dle x NaN = False"
| "dle x y = (x = y \<or> dless x y)"

text \<open>The implicit conversions of the integer types to double.\<close>

definition double_of_u32 :: "32 word \<Rightarrow> double" where
  "double_of_u32 w = Val (real (unat w))"

definition double_of_u64 :: "64 word \<Rightarrow> double" where
  "double_of_u64 w = Val (real (unat w))"

definition double_of_int :: "int \<Rightarrow> double" where
  "double_of_int k = Val (real_of_int k)"

section \<open>The performance profile and the process-wide variables\<close>

record LweMetrics =
  avg_computation_time_ms :: double
  avg_memory_kb :: double
  avg_energy_mj :: double
  key_size_bytes :: int
  public_data_bytes :: int

text \<open>The member initialisers of \<^verbatim>\<open>struct LweMetrics\<close>.\<close>

definition LweMetrics_init :: LweMetrics where
  "LweMetrics_init =
     \<lparr>avg_computation_time_ms = Val 0.5, avg_memory_kb = Val 12.0, avg_energy_mj = Val 0.5,
      key_size_bytes = 256, public_data_bytes = 16640\<rparr>"

record globals =
  g_metrics :: LweMetrics
  g_totalPacketsSent :: "32 word"
  g_totalPacketsReceived :: "32 word"

definition globals_init :: globals where
  "globals_init =
     \<lparr>g_metrics = LweMetrics_init, g_totalPacketsSent = 0, g_totalPacketsReceived = 0\<rparr>"

section \<open>Reading the CSV of measurements\<close>

subsection \<open>std::getline\<close>

text \<open>
  \<^verbatim>\<open>std::getline(stream, line, delim)\<close> on the characters still unread: it fails when
  nothing is left; otherwise it takes the characters up to the first delimiter, which it
  consumes and drops, or up to the end of the input. The result is the line and the
  characters left unread.
\<close>

fun getline :: "char \<Rightarrow> string \<Rightarrow> (string \<times> string) option" where
  "getline delim [] = None"
| "getline delim (c # cs) =
     (if c = delim then Some ([], cs)
      else (case getline delim cs of
              None \<Rightarrow> Some ([c], [])
            | Some (line, rest) \<Rightarrow> Some (c # line, rest)))"

definition newline :: char where
  "newline = CHR 0x0A"

definition comma :: char where
  "comma = CHR '',''"

lemma getline_shorter: "getline delim s = Some (line, rest) \<Longrightarrow> length rest < length s"
  by (induction s arbitrary: line rest) (auto split: if_splits option.splits)

text \<open>
  The inner loop of \<^verbatim>\<open>LoadMetricsFromCSV\<close>:
  \<^verbatim>\<open>while (std::getline(ss, item, ',')) row.push_back(item);\<close>
\<close>

function split_row :: "string \<Rightarrow> string list" where
  "split_row s =
     (case getline comma s of
        None \<Rightarrow> []
      | Some (item, rest) \<Rightarrow> item # split_row rest)"
  by pat_completeness auto
termination
  by (relation "measure length") (auto simp: getline_shorter)

declare split_row.simps [simp del]

subsection \<open>std::stod\<close>

text \<open>
  \<^verbatim>\<open>std::stod\<close> is library code. It returns a double or throws
  \<^verbatim>\<open>std::invalid_argument\<close> (no conversion could be performed) or
  \<^verbatim>\<open>std::out_of_range\<close>. The loader below takes the conversion as its first
  argument, so what is proved of the loader holds for every conversion; \<open>stod\<close>
  is a model of the library function for running the loader on concrete files:
  leading white space, an optional sign, then a decimal number with optional fraction
  and exponent, a hexadecimal number, \<^verbatim>\<open>inf\<close> or \<^verbatim>\<open>nan\<close>; what follows the
  number is ignored. The value read is exact (not rounded to a double). It is out of
  range when its magnitude rounds to infinity, which is from \<open>2 ^ 1024 - 2 ^ 970\<close> on,
  or when it is tiny and not a double itself: below \<open>2 ^ -1022 - 2 ^ -1076\<close>, from
  where on it rounds to the least normal double, and no multiple of \<open>2 ^ -1074\<close>
  (the error the C library reports for an inexact subnormal or zero result).
\<close>

datatype stod_error = Invalid_argument | Out_of_range

definition isspace :: "char \<Rightarrow> bool" where
  "isspace c \<longleftrightarrow> c \<in> set [CHR '' '', CHR 0x09, CHR 0x0A, CHR 0x0B, CHR 0x0C, CHR 0x0D]"

definition isdigit :: "char \<Rightarrow> bool" where
  "isdigit c \<longleftrightarrow> (48::nat) \<le> of_char c \<and> of_char c \<le> (57::nat)"

definition tolower :: "char \<Rightarrow> char" where
  "tolower c =
     (if (65::nat) \<le> of_char c \<and> of_char c \<le> (90::nat) then char_of (of_char c + (32::nat)) else c)"

definition isxdigit :: "char \<Rightarrow> bool" where
  "isxdigit c \<longleftrightarrow>
     isdigit c \<or> ((97::nat) \<le> of_char (tolower c) \<and> of_char (tolower c) \<le> (102::nat))"

definition xdigit_value :: "char \<Rightarrow> nat" where
  "xdigit_value c = (if isdigit c then of_char c - 48 else of_char (tolower c) - 87)"

definition digits_value :: "nat \<Rightarrow> string \<Rightarrow> nat" where
  "digits_value base ds = foldl (\<lambda>acc c. base * acc + xdigit_value c) 0 ds"

text \<open>
  An exponent part: the marker letter in either case, an optional sign, at least one
  decimal digit; 0 when there is none.
\<close>

definition exponent_part :: "char \<Rightarrow> string \<Rightarrow> int" where
  "exponent_part marker s =
     (case s of
        [] \<Rightarrow> 0
      | c # r \<Rightarrow>
          if tolower c = marker then
            (let negative = (r \<noteq> [] \<and> hd r = CHR ''-'');
                 r' = (if r \<noteq> [] \<and> (hd r = CHR ''-'' \<or> hd r = CHR ''+'') then tl r else r);
                 ds = takeWhile isdigit r'
             in if ds = [] then 0
                else if negative then - int (digits_value 10 ds) else int (digits_value 10 ds))
          else 0)"

text \<open>
  A mantissa in the given base, with the exponent that may follow it: the digits before
  and after the point, at least one digit in all.
\<close>

definition mantissa :: "(char \<Rightarrow> bool) \<Rightarrow> nat \<Rightarrow> real \<Rightarrow> char \<Rightarrow> string \<Rightarrow> real option" where
  "mantissa is_digit base ebase marker s =
     (let ip = takeWhile is_digit s;
          r1 = dropWhile is_digit s;
          pointed = (r1 \<noteq> [] \<and> hd r1 = CHR ''.'');
          fp = (if pointed then takeWhile is_digit (tl r1) else []);
          r2 = (if pointed then dropWhile is_digit (tl r1) else r1)
      in if ip = [] \<and> fp = [] then None
         else Some (real (digits_value base (ip @ fp)) / real (base ^ length fp)
                    * ebase powi exponent_part marker r2))"

definition magnitude :: "string \<Rightarrow> double option" where
  "magnitude s =
     (if map tolower (take 3 s) = ''inf'' then Some PosInf
      else if map tolower (take 3 s) = ''nan'' then Some NaN
      else
        (case (if map tolower (take 2 s) = ''0x''
               then mantissa isxdigit 16 2 (CHR ''p'') (drop 2 s) else None) of
           Some v \<Rightarrow> Some (Val v)
         | None \<Rightarrow> map_option Val (mantissa isdigit 10 10 (CHR ''e'') s)))"

definition stod :: "string \<Rightarrow> stod_error + double" where
  "stod str =
     (let s = dropWhile isspace str;
          negative = (s \<noteq> [] \<and> hd s = CHR ''-'');
          s' = (if s \<noteq> [] \<and> (hd s = CHR ''-'' \<or> hd s = CHR ''+'') then tl s else s)
      in case magnitude s' of
           None \<Rightarrow> Inl Invalid_argument
         | Some (Val v) \<Rightarrow>
             if 2 ^ 1024 - 2 ^ 970 \<le> v then Inl Out_of_range
             else if 0 < v \<and> v < 1 / 2 ^ 1022 - 1 / 2 ^ 1076 then
               (if frac (v * 2 ^ 1074) = 0 then Inr (Val (if negative then - v else v))
                else Inl Out_of_range)
             else Inr (Val (if negative then - v else v))
         | Some PosInf \<Rightarrow> Inr (if negative then NegInf else PosInf)
         | Some NegInf \<Rightarrow> Inr (if negative then PosInf else NegInf)
         | Some NaN \<Rightarrow> Inr NaN)"

subsection \<open>LoadMetricsFromCSV\<close>

text \<open>
  The local variables of the loader: the three running sums and the row count. The count
  is a C++ \<^verbatim>\<open>int\<close>, whose increment is undefined from \<open>2 ^ 31 - 1\<close> on; the
  model's count is an unbounded integer, and every property below that depends on the
  count is stated for files with fewer than \<open>2 ^ 31\<close> rows of six fields or more.
\<close>

record totals =
  total_time :: double
  total_memory :: double
  total_energy :: double
  count :: int

definition totals_init :: totals where
  "totals_init = \<lparr>total_time = Val 0, total_memory = Val 0, total_energy = Val 0, count = 0\<rparr>"

text \<open>
  The \<^verbatim>\<open>while (std::getline(file, line))\<close> loop over the unread part of the file.
  An exception of the conversion leaves the loop and the function: the result is
  \<open>Inl\<close> of it. The three conversions run in the order of the source.
\<close>

function read_rows :: "(string \<Rightarrow> stod_error + double) \<Rightarrow> string \<Rightarrow> totals \<Rightarrow> stod_error + totals" where
  "read_rows conv s t =
     (case getline newline s of
        None \<Rightarrow> Inr t
      | Some (line, rest) \<Rightarrow>
          (let row = split_row line in
           if 6 \<le> length row then
             (case conv (row ! 1) of
                Inl e \<Rightarrow> Inl e
              | Inr x \<Rightarrow>
                  (case conv (row ! 2) of
                     Inl e \<Rightarrow> Inl e
                   | Inr y \<Rightarrow>
                       (case conv (row ! 5) of
                          Inl e \<Rightarrow> Inl e
                        | Inr z \<Rightarrow>
                            read_rows conv rest
                              \<lparr>total_time = dadd (total_time t) x,
                               total_memory = dadd (total_memory t) y,
                               total_energy = dadd (total_energy t) z,
                               count = count t + 1\<rparr>)))
           else read_rows conv rest t))"
  by pat_completeness auto
termination
  by (relation "measure (\<lambda>(conv, s, t). length s)") (auto simp: getline_shorter)

declare read_rows.simps [simp del]

text \<open>
  The file is \<open>None\<close> when it cannot be opened, and its characters otherwise. The
  profile is the one of \<^verbatim>\<open>g_metrics\<close>; the result is the profile on return, or
  \<open>Inl\<close> of the exception that left the function.
\<close>

definition LoadMetricsFromCSV ::
  "(string \<Rightarrow> stod_error + double) \<Rightarrow> string option \<Rightarrow> LweMetrics \<Rightarrow> stod_error + LweMetrics" where
  "LoadMetricsFromCSV conv file m =
     (case file of
        None \<Rightarrow> Inr m
      | Some content \<Rightarrow>
          (let unread = (case getline newline content of None \<Rightarrow> [] | Some (line, rest) \<Rightarrow> rest)
           in case read_rows conv unread totals_init of
                Inl e \<Rightarrow> Inl e
              | Inr t \<Rightarrow>
                  Inr (if 0 < count t then
                         m\<lparr>avg_computation_time_ms := ddiv (total_time t) (double_of_int (count t)),
                           avg_memory_kb := ddiv (total_memory t) (double_of_int (count t)),
                           avg_energy_mj := ddiv (total_energy t) (double_of_int (count t))\<rparr>
                       else m)))"


subsection \<open>The rows of a file\<close>

text \<open>
  The lines that the outer loop reads from the unread part of a file, by the same
  \<^verbatim>\<open>std::getline\<close>; the data rows of a file, which are its lines after the header
  line, each split at the commas; and the rows that pass the test
  \<^verbatim>\<open>row.size() >= 6\<close>.
\<close>

function read_lines :: "string \<Rightarrow> string list" where
  "read_lines s =
     (case getline newline s of
        None \<Rightarrow> []
      | Some (line, rest) \<Rightarrow> line # read_lines rest)"
  by pat_completeness auto
termination
  by (relation "measure length") (auto simp: getline_shorter)

declare read_lines.simps [simp del]

definition data_rows :: "string \<Rightarrow> string list list" where
  "data_rows content =
     map split_row
       (read_lines (case getline newline content of None \<Rightarrow> [] | Some (line, rest) \<Rightarrow> rest))"

definition valid_rows :: "string \<Rightarrow> string list list" where
  "valid_rows content = filter (\<lambda>row. 6 \<le> length row) (data_rows content)"

text \<open>The sum of a column as the loop forms it: from 0, adding the values in order.\<close>

definition dsum :: "double list \<Rightarrow> double" where
  "dsum xs = foldl dadd (Val 0) xs"

text \<open>The body of the loop for a row that passed the test, over a list of such rows.\<close>

fun add_rows ::
  "(string \<Rightarrow> stod_error + double) \<Rightarrow> string list list \<Rightarrow> totals \<Rightarrow> stod_error + totals" where
  "add_rows conv [] t = Inr t"
| "add_rows conv (row # rows) t =
     (case conv (row ! 1) of
        Inl e \<Rightarrow> Inl e
      | Inr x \<Rightarrow>
          (case conv (row ! 2) of
             Inl e \<Rightarrow> Inl e
           | Inr y \<Rightarrow>
               (case conv (row ! 5) of
                  Inl e \<Rightarrow> Inl e
                | Inr z \<Rightarrow>
                    add_rows conv rows
                      \<lparr>total_time = dadd (total_time t) x,
                       total_memory = dadd (total_memory t) y,
                       total_energy = dadd (total_energy t) z,
                       count = count t + 1\<rparr>)))"

section \<open>Scheduling the clients\<close>

text \<open>
  What the set-up loop hands to the simulation engine for one IoT node: the attributes
  of its UDP client and the start and stop times of the application. The packet size is
  the value of \<^verbatim>\<open>g_metrics.public_data_bytes\<close> given to \<^verbatim>\<open>UintegerValue\<close>.
\<close>

record client_app =
  MaxPackets :: nat
  Interval :: double
  PacketSize :: int
  start_seconds :: double
  stop_seconds :: double

text \<open>
  The argument of \<^verbatim>\<open>clientApp.Start\<close>:
  \<^verbatim>\<open>2.0 + i * 0.5 + g_metrics.avg_computation_time_ms / 1000.0\<close>,
  with the offset, which is the literal 2.0 in the loop, as the first argument.
\<close>

definition client_start :: "double \<Rightarrow> 32 word \<Rightarrow> LweMetrics \<Rightarrow> double" where
  "client_start base i m =
     dadd (dadd base (dmul (double_of_u32 i) (Val 0.5)))
          (ddiv (avg_computation_time_ms m) (Val 1000.0))"

lemma unat_succ_below:
  fixes i n :: "32 word"
  assumes "i < n"
  shows "unat (i + 1) = unat i + 1"
proof -
  from assms have "unat i < unat n"
    by (simp add: word_less_nat_alt)
  moreover have "unat n < 2 ^ 32"
    using unsigned_less [of n, where ?'a = nat] by simp
  ultimately have "unat i + unat (1 :: 32 word) < 2 ^ LENGTH(32)"
    by simp
  then show ?thesis
    by (simp add: unat_add_lem [THEN iffD1])
qed

text \<open>
  The loop \<^verbatim>\<open>for (uint32_t i = 0; i < nIoTNodes; i++)\<close> over the clients, from the
  value of \<open>i\<close> on: each round installs one client and increments
  \<^verbatim>\<open>g_totalPacketsSent\<close>.
\<close>

function client_loop ::
  "32 word \<Rightarrow> double \<Rightarrow> 32 word \<Rightarrow> globals \<times> client_app list \<Rightarrow> globals \<times> client_app list" where
  "client_loop nIoTNodes simTime i (g, apps) =
     (if i < nIoTNodes then
        client_loop nIoTNodes simTime (i + 1)
          (g\<lparr>g_totalPacketsSent := g_totalPacketsSent g + 1\<rparr>,
           apps @ [\<lparr>MaxPackets = 1, Interval = Val 1.0,
                    PacketSize = public_data_bytes (g_metrics g),
                    start_seconds = client_start (Val 2.0) i (g_metrics g),
                    stop_seconds = simTime\<rparr>])
      else (g, apps))"
  by pat_completeness auto
termination
proof (relation "measure (\<lambda>(nIoTNodes, simTime, i, s). unat nIoTNodes - unat i)")
  show "wf (measure (\<lambda>(nIoTNodes, simTime, i, s). unat nIoTNodes - unat i))"
    by simp
next
  fix nIoTNodes i :: "32 word" and simTime :: double and g :: globals and apps :: "client_app list"
  assume "i < nIoTNodes"
  then have "unat i < unat nIoTNodes"
    by (simp add: word_less_nat_alt)
  moreover from \<open>i < nIoTNodes\<close> have "unat (i + 1) = unat i + 1"
    by (rule unat_succ_below)
  ultimately show
    "((nIoTNodes, simTime, i + 1,
       g\<lparr>g_totalPacketsSent := g_totalPacketsSent g + 1\<rparr>,
       apps @ [\<lparr>MaxPackets = 1, Interval = Val 1.0,
                PacketSize = public_data_bytes (g_metrics g),
                start_seconds = client_start (Val 2.0) i (g_metrics g),
                stop_seconds = simTime\<rparr>]),
      (nIoTNodes, simTime, i, g, apps))
     \<in> measure (\<lambda>(nIoTNodes, simTime, i, s). unat nIoTNodes - unat i)"
    by simp
qed

declare client_loop.simps [simp del]

text \<open>The client that the loop installs for node \<open>k\<close>.\<close>

definition scheduled :: "double \<Rightarrow> LweMetrics \<Rightarrow> nat \<Rightarrow> client_app" where
  "scheduled simTime m k =
     \<lparr>MaxPackets = 1, Interval = Val 1.0, PacketSize = public_data_bytes m,
      start_seconds = client_start (Val 2.0) (of_nat k) m, stop_seconds = simTime\<rparr>"

text \<open>
  The start time as a real number when each of its finite operations is rounded by
  \<open>rnd\<close>: the product \<open>i * 0.5\<close>, the sum with the offset \<open>b\<close>, the quotient of
  the computation time \<open>c\<close> by 1000, and the last sum.
\<close>

definition rounded_start :: "(real \<Rightarrow> real) \<Rightarrow> real \<Rightarrow> nat \<Rightarrow> real \<Rightarrow> real" where
  "rounded_start rnd b i c = rnd (rnd (b + rnd (real i * 0.5)) + rnd (c / 1000.0))"

section \<open>The receive callback\<close>

definition RxCallback :: "globals \<Rightarrow> globals" where
  "RxCallback g = g\<lparr>g_totalPacketsReceived := g_totalPacketsReceived g + 1\<rparr>"

section \<open>Flow statistics\<close>

text \<open>
  The fields of the engine's per-flow record that the program reads;
  \<open>delaySum\<close> holds the seconds that \<^verbatim>\<open>delaySum.GetSeconds()\<close> returns.
\<close>

record FlowStats =
  txPackets :: "32 word"
  rxPackets :: "32 word"
  delaySum :: double
  rxBytes :: "64 word"

text \<open>The four accumulators of the statistics loop.\<close>

record flow_totals =
  totalThroughput :: double
  totalDelay :: double
  totalRxPackets :: "32 word"
  totalTxPackets :: "32 word"

definition flow_totals_init :: flow_totals where
  "flow_totals_init =
     \<lparr>totalThroughput = Val 0, totalDelay = Val 0, totalRxPackets = 0, totalTxPackets = 0\<rparr>"

text \<open>
  \<^verbatim>\<open>for (auto const& flow : stats)\<close>: the map's entries in the order of iteration,
  each a flow identifier and its record.
\<close>

fun flow_loop :: "double \<Rightarrow> (32 word \<times> FlowStats) list \<Rightarrow> flow_totals \<Rightarrow> flow_totals" where
  "flow_loop simTime [] a = a"
| "flow_loop simTime (flow # flows) a =
     (let a1 = a\<lparr>totalTxPackets := totalTxPackets a + txPackets (snd flow)\<rparr>;
          a2 = a1\<lparr>totalRxPackets := totalRxPackets a1 + rxPackets (snd flow)\<rparr>;
          a3 = (if 0 < rxPackets (snd flow) then
                  a2\<lparr>totalDelay := dadd (totalDelay a2) (delaySum (snd flow)),
                     totalThroughput :=
                       dadd (totalThroughput a2)
                         (ddiv (ddiv (dmul (double_of_u64 (rxBytes (snd flow))) (Val 8.0)) simTime)
                               (Val 1000.0))\<rparr>
                else a2)
      in flow_loop simTime flows a3)"

record statistics =
  totals :: flow_totals
  avgDelay :: double
  pdr :: double
  totalEnergy :: double

definition compute_statistics ::
  "double \<Rightarrow> globals \<Rightarrow> (32 word \<times> FlowStats) list \<Rightarrow> statistics" where
  "compute_statistics simTime g stats =
     (let a = flow_loop simTime stats flow_totals_init in
      \<lparr>totals = a,
       avgDelay =
         (if 0 < totalRxPackets a
          then dmul (ddiv (totalDelay a) (double_of_u32 (totalRxPackets a))) (Val 1000.0)
          else Val 0),
       pdr =
         (if 0 < totalTxPackets a
          then dmul (ddiv (double_of_u32 (totalRxPackets a)) (double_of_u32 (totalTxPackets a)))
                 (Val 100.0)
          else Val 0),
       totalEnergy = dmul (double_of_u32 (g_totalPacketsSent g)) (avg_energy_mj (g_metrics g))\<rparr>)"

section \<open>Saving the results\<close>

text \<open>
  The results file before the run: it cannot be opened for appending, or it does not
  exist yet, or it exists with some bytes. An output stream is failed or open on the
  bytes of its file. Opening in append mode creates a missing file and puts the
  position at the end of the file; on a failed stream \<^verbatim>\<open>tellp\<close> returns -1 and
  \<^verbatim>\<open><<\<close> writes nothing. Errors of a write to an open stream are left out.
\<close>

datatype out_file = Cannot_open | Missing | Existing string

datatype ofstream = Failed | Opened string

fun open_append :: "out_file \<Rightarrow> ofstream" where
  "open_append Cannot_open = Failed"
| "open_append Missing = Opened []"
| "open_append (Existing bytes) = Opened bytes"

fun tellp :: "ofstream \<Rightarrow> int" where
  "tellp Failed = - 1"
| "tellp (Opened bytes) = int (length bytes)"

fun put :: "ofstream \<Rightarrow> string \<Rightarrow> ofstream" where
  "put Failed text = Failed"
| "put (Opened bytes) text = Opened (bytes @ text)"

fun close :: "out_file \<Rightarrow> ofstream \<Rightarrow> out_file" where
  "close file Failed = file"
| "close file (Opened bytes) = Existing bytes"

text \<open>The text of an unsigned integer: its decimal digits.\<close>

fun show_nat :: "nat \<Rightarrow> string" where
  "show_nat n =
     (if n < 10 then [char_of (48 + n)] else show_nat (n div 10) @ [char_of (48 + n mod 10)])"

declare show_nat.simps [simp del]

definition show_u32 :: "32 word \<Rightarrow> string" where
  "show_u32 w = show_nat (unat w)"

text \<open>
  The operands of the row's \<^verbatim>\<open><<\<close> chain between the commas, in the order of the
  source. The text of a double is the stream library's and depends on the stream's
  format state: the writer takes the conversion \<open>fmt\<close> as an argument.
\<close>

datatype cell = U32 "32 word" | Dbl double

fun cell_text :: "(double \<Rightarrow> string) \<Rightarrow> cell \<Rightarrow> string" where
  "cell_text fmt (U32 w) = show_u32 w"
| "cell_text fmt (Dbl d) = fmt d"

definition results_row :: "32 word \<Rightarrow> globals \<Rightarrow> statistics \<Rightarrow> cell list" where
  "results_row nIoTNodes g st =
     [U32 nIoTNodes, U32 (g_totalPacketsSent g), U32 (g_totalPacketsReceived g),
      Dbl (pdr st), Dbl (avgDelay st), Dbl (totalThroughput (totals st)),
      Dbl (totalEnergy st), Dbl (avg_computation_time_ms (g_metrics g)),
      Dbl (dmul (avg_memory_kb (g_metrics g)) (double_of_u32 nIoTNodes))]"

definition csv_header :: string where
  "csv_header =
     ''nodes,packets_sent,packets_received,pdr,avg_delay_ms,throughput_kbps,'' @
     ''total_energy_mj,computation_ms,memory_kb\<newline>''"

text \<open>The chain of \<^verbatim>\<open><<\<close> for one row: the cells with commas between, then a newline.\<close>

fun put_cells :: "(double \<Rightarrow> string) \<Rightarrow> ofstream \<Rightarrow> cell list \<Rightarrow> ofstream" where
  "put_cells fmt out [] = put out ''\<newline>''"
| "put_cells fmt out [c] = put (put out (cell_text fmt c)) ''\<newline>''"
| "put_cells fmt out (c # cs) = put_cells fmt (put (put out (cell_text fmt c)) '','') cs"

text \<open>The text of a row: the texts of its cells with commas between, and a newline.\<close>

fun comma_separated :: "string list \<Rightarrow> string" where
  "comma_separated [] = []"
| "comma_separated [item] = item"
| "comma_separated (item # items) = item @ '','' @ comma_separated items"

definition row_text :: "(double \<Rightarrow> string) \<Rightarrow> cell list \<Rightarrow> string" where
  "row_text fmt cells = comma_separated (map (cell_text fmt) cells) @ ''\<newline>''"

definition save_csv ::
  "(double \<Rightarrow> string) \<Rightarrow> out_file \<Rightarrow> 32 word \<Rightarrow> globals \<Rightarrow> statistics \<Rightarrow> out_file" where
  "save_csv fmt file nIoTNodes g st =
     (let outfile = open_append file;
          newFile = (tellp outfile = 0);
          outfile1 = (if newFile then put outfile csv_header else outfile);
          outfile2 = put_cells fmt outfile1 (results_row nIoTNodes g st)
      in close file outfile2)"

section \<open>The program\<close>

text \<open>
  \<^verbatim>\<open>main\<close> up to the statistics. The simulation engine is outside the program: a run
  of it is given by the number of packets that arrive at the server, each arrival a call
  of \<^verbatim>\<open>RxCallback\<close>, and by the flow records the monitor returns afterwards. The
  calls that build the topology change none of the program's variables. An exception
  that leaves \<^verbatim>\<open>LoadMetricsFromCSV\<close> is caught nowhere and ends the program.
\<close>

definition simulate ::
  "(string \<Rightarrow> stod_error + double) \<Rightarrow> 32 word \<Rightarrow> double \<Rightarrow> string option \<Rightarrow>
   nat \<Rightarrow> (32 word \<times> FlowStats) list \<Rightarrow> stod_error + globals \<times> statistics" where
  "simulate conv nIoTNodes simTime csv arrivals stats =
     (case LoadMetricsFromCSV conv csv (g_metrics globals_init) of
        Inl e \<Rightarrow> Inl e
      | Inr m \<Rightarrow>
          (let g0 = globals_init\<lparr>g_metrics := m\<rparr>;
               g1 = fst (client_loop nIoTNodes simTime 0 (g0, []));
               g2 = (RxCallback ^^ arrivals) g1
           in Inr (g2, compute_statistics simTime g2 stats)))"

record main_result =
  exit_code :: int
  results_file :: out_file

definition main ::
  "(double \<Rightarrow> string) \<Rightarrow> (string \<Rightarrow> stod_error + double) \<Rightarrow> 32 word \<Rightarrow> double \<Rightarrow>
   string option \<Rightarrow> out_file \<Rightarrow> nat \<Rightarrow> (32 word \<times> FlowStats) list \<Rightarrow> stod_error + main_result" where
  "main fmt conv nIoTNodes simTime csv results arrivals stats =
     (case simulate conv nIoTNodes simTime csv arrivals stats of
        Inl e \<Rightarrow> Inl e
      | Inr (g, st) \<Rightarrow>
          Inr \<lparr>exit_code = 0, results_file = save_csv fmt results nIoTNodes g st\<rparr>)"


section \<open>Properties of the loader\<close>

lemmas stod_defs = stod_def magnitude_def mantissa_def isspace_def isdigit_def isxdigit_def
  tolower_def exponent_part_def digits_value_def xdigit_value_def

lemmas csv_defs = valid_rows_def data_rows_def read_lines.simps split_row.simps newline_def
  comma_def

text \<open>
  The loop over the stream does to the totals what the loop body does over the rows of
  six fields or more, in the order of the file.
\<close>

lemma read_rows_add_rows:
  "read_rows conv s t =
     add_rows conv (filter (\<lambda>row. 6 \<le> length row) (map split_row (read_lines s))) t"
proof (induction conv s t rule: read_rows.induct)
  case (1 conv s t)
  show ?case
  proof (cases "getline newline s")
    case None
    then show ?thesis
      by (simp add: read_rows.simps [of conv s t] read_lines.simps [of s])
  next
    case (Some p)
    obtain line rest where p: "p = (line, rest)" by (cases p)
    show ?thesis
    proof (cases "6 \<le> length (split_row line)")
      case False
      with Some p "1.IH"(2) [of "(line, rest)" line rest "split_row line"] show ?thesis
        by (simp add: read_rows.simps [of conv s t] read_lines.simps [of s])
    next
      case True
      with Some p "1.IH"(1) [of "(line, rest)" line rest "split_row line"] show ?thesis
        by (simp add: read_rows.simps [of conv s t] read_lines.simps [of s] Let_def
            split: sum.splits)
    qed
  qed
qed

lemma add_rows_all_converted:
  "map (\<lambda>row. conv (row ! 1)) rows = map Inr xs \<Longrightarrow>
   map (\<lambda>row. conv (row ! 2)) rows = map Inr ys \<Longrightarrow>
   map (\<lambda>row. conv (row ! 5)) rows = map Inr zs \<Longrightarrow>
   add_rows conv rows t =
     Inr \<lparr>total_time = foldl dadd (total_time t) xs,
          total_memory = foldl dadd (total_memory t) ys,
          total_energy = foldl dadd (total_energy t) zs,
          count = count t + int (length rows)\<rparr>"
proof (induction rows arbitrary: xs ys zs t)
  case Nil
  then show ?case by simp
next
  case (Cons row rows)
  from Cons.prems obtain x xs' y ys' z zs' where
    xs: "xs = x # xs'" and ys: "ys = y # ys'" and zs: "zs = z # zs'"
    by (cases xs; cases ys; cases zs) auto
  with Cons.prems have
    "conv (row ! 1) = Inr x" "conv (row ! 2) = Inr y" "conv (row ! 5) = Inr z"
    "map (\<lambda>row. conv (row ! 1)) rows = map Inr xs'"
    "map (\<lambda>row. conv (row ! 2)) rows = map Inr ys'"
    "map (\<lambda>row. conv (row ! 5)) rows = map Inr zs'"
    by simp_all
  then show ?case
    using Cons.IH [of xs' ys' zs'] by (simp add: xs ys zs)
qed

lemma add_rows_returns:
  "\<forall>row \<in> set rows.
     \<exists>x y z. conv (row ! 1) = Inr x \<and> conv (row ! 2) = Inr y \<and> conv (row ! 5) = Inr z \<Longrightarrow>
   \<exists>t'. add_rows conv rows t = Inr t'"
proof (induction rows arbitrary: t)
  case Nil
  then show ?case by simp
next
  case (Cons row rows)
  then obtain x y z where
    "conv (row ! 1) = Inr x" "conv (row ! 2) = Inr y" "conv (row ! 5) = Inr z"
    by auto
  with Cons show ?case by simp
qed

lemma LoadMetricsFromCSV_valid_rows:
  "LoadMetricsFromCSV conv (Some content) m =
     (case add_rows conv (valid_rows content) totals_init of
        Inl e \<Rightarrow> Inl e
      | Inr t \<Rightarrow>
          Inr (if 0 < count t then
                 m\<lparr>avg_computation_time_ms := ddiv (total_time t) (double_of_int (count t)),
                   avg_memory_kb := ddiv (total_memory t) (double_of_int (count t)),
                   avg_energy_mj := ddiv (total_energy t) (double_of_int (count t))\<rparr>
               else m))"
  by (simp add: LoadMetricsFromCSV_def read_rows_add_rows valid_rows_def data_rows_def)

text \<open>
  C4. If the CSV file cannot be opened, or it is opened and none of its data rows has six
  fields or more, the loader returns and leaves every field of the profile as it was;
  the profile it is called on in \<open>main\<close> holds the member initialisers, so it stays
  0.5 ms, 12.0 KB, 0.5 mJ, 256 bytes and 16640 bytes.
\<close>

theorem load_keeps_defaults:
  assumes "file = None \<or> (\<exists>content. file = Some content \<and> valid_rows content = [])"
  shows "LoadMetricsFromCSV conv file m = Inr m \<and>
         LoadMetricsFromCSV conv file LweMetrics_init =
           Inr \<lparr>avg_computation_time_ms = Val 0.5, avg_memory_kb = Val 12.0,
                avg_energy_mj = Val 0.5, key_size_bytes = 256, public_data_bytes = 16640\<rparr>"
proof -
  have "LoadMetricsFromCSV conv file m' = Inr m'" for m'
    using assms
  proof
    assume "file = None"
    then show ?thesis by (simp add: LoadMetricsFromCSV_def)
  next
    assume "\<exists>content. file = Some content \<and> valid_rows content = []"
    then obtain content where "file = Some content" "valid_rows content = []" by blast
    then show ?thesis
      by (simp add: LoadMetricsFromCSV_valid_rows totals_init_def)
  qed
  then show ?thesis by (simp add: LweMetrics_init_def)
qed

text \<open>
  The theorem at a file that cannot be opened, and at a file whose only data rows are one
  of three fields and an empty line.
\<close>

theorem load_keeps_defaults_witness:
  "LoadMetricsFromCSV stod None LweMetrics_init = Inr LweMetrics_init \<and>
   valid_rows ''id,time,mem\<newline>r1,1.0,10.0\<newline>\<newline>'' = [] \<and>
   LoadMetricsFromCSV stod (Some ''id,time,mem\<newline>r1,1.0,10.0\<newline>\<newline>'') LweMetrics_init =
     Inr \<lparr>avg_computation_time_ms = Val 0.5, avg_memory_kb = Val 12.0,
          avg_energy_mj = Val 0.5, key_size_bytes = 256, public_data_bytes = 16640\<rparr>"
proof -
  have v: "valid_rows ''id,time,mem\<newline>r1,1.0,10.0\<newline>\<newline>'' = []"
    by (simp add: csv_defs)
  show ?thesis
    using load_keeps_defaults [of None stod LweMetrics_init]
      load_keeps_defaults [of "Some ''id,time,mem\<newline>r1,1.0,10.0\<newline>\<newline>''" stod LweMetrics_init] v
    by (simp add: LweMetrics_init_def)
qed

text \<open>
  C1, as amended. For a file that can be opened and has at least one and fewer than
  \<open>2 ^ 31\<close> data rows of six fields or more, and in which the conversion accepts
  fields 1, 2 and 5 of every such row, the loader sets the three averaged fields to the
  sums of the converted columns divided by the number of those rows, and leaves the
  other fields as they were.
\<close>

theorem load_sets_averages:
  assumes "valid_rows content = rows" and "rows \<noteq> []" and "length rows < 2 ^ 31"
    and "map (\<lambda>row. conv (row ! 1)) rows = map Inr xs"
    and "map (\<lambda>row. conv (row ! 2)) rows = map Inr ys"
    and "map (\<lambda>row. conv (row ! 5)) rows = map Inr zs"
  shows "LoadMetricsFromCSV conv (Some content) m =
           Inr (m\<lparr>avg_computation_time_ms := ddiv (dsum xs) (double_of_int (int (length rows))),
                  avg_memory_kb := ddiv (dsum ys) (double_of_int (int (length rows))),
                  avg_energy_mj := ddiv (dsum zs) (double_of_int (int (length rows)))\<rparr>)"
proof -
  from assms(2) have "0 < length rows" by simp
  then show ?thesis
    using add_rows_all_converted [OF assms(4-6), of totals_init]
    by (simp add: LoadMetricsFromCSV_valid_rows assms(1) totals_init_def dsum_def)
qed

text \<open>
  The theorem at the two-row file of P2: the profile loaded has 2.0 ms, 15.0 KB and
  3.0 mJ.
\<close>

theorem load_sets_averages_witness:
  "valid_rows ''id,time,mem,a,b,energy\<newline>r1,1.0,10.0,x,y,2.0\<newline>r2,3.0,20.0,x,y,4.0\<newline>'' =
     [[''r1'', ''1.0'', ''10.0'', ''x'', ''y'', ''2.0''],
      [''r2'', ''3.0'', ''20.0'', ''x'', ''y'', ''4.0'']] \<and>
   LoadMetricsFromCSV stod
     (Some ''id,time,mem,a,b,energy\<newline>r1,1.0,10.0,x,y,2.0\<newline>r2,3.0,20.0,x,y,4.0\<newline>'')
     LweMetrics_init =
     Inr \<lparr>avg_computation_time_ms = Val 2.0, avg_memory_kb = Val 15.0,
          avg_energy_mj = Val 3.0, key_size_bytes = 256, public_data_bytes = 16640\<rparr>"
proof -
  let ?rows = "[[''r1'', ''1.0'', ''10.0'', ''x'', ''y'', ''2.0''],
                [''r2'', ''3.0'', ''20.0'', ''x'', ''y'', ''4.0'']]"
  have v: "valid_rows
      ''id,time,mem,a,b,energy\<newline>r1,1.0,10.0,x,y,2.0\<newline>r2,3.0,20.0,x,y,4.0\<newline>'' = ?rows"
    by (simp add: csv_defs)
  have s: "stod ''1.0'' = Inr (Val 1)" "stod ''3.0'' = Inr (Val 3)"
    "stod ''10.0'' = Inr (Val 10)" "stod ''20.0'' = Inr (Val 20)"
    "stod ''2.0'' = Inr (Val 2)" "stod ''4.0'' = Inr (Val 4)"
    by (simp_all add: stod_defs)
  have "LoadMetricsFromCSV stod
     (Some ''id,time,mem,a,b,energy\<newline>r1,1.0,10.0,x,y,2.0\<newline>r2,3.0,20.0,x,y,4.0\<newline>'')
     LweMetrics_init =
     Inr (LweMetrics_init
           \<lparr>avg_computation_time_ms :=
              ddiv (dsum [Val 1, Val 3]) (double_of_int (int (length ?rows))),
            avg_memory_kb := ddiv (dsum [Val 10, Val 20]) (double_of_int (int (length ?rows))),
            avg_energy_mj := ddiv (dsum [Val 2, Val 4]) (double_of_int (int (length ?rows)))\<rparr>)"
    by (rule load_sets_averages [OF v]) (simp_all add: s)
  then show ?thesis
    using v by (simp add: dsum_def double_of_int_def LweMetrics_init_def)
qed

text \<open>
  C1 as stated fails: this file can be opened and its one data row has six fields, but
  field 1 is no number; the conversion throws, and the loader ends with the exception
  instead of setting the profile.
\<close>

theorem load_non_numeric_field_raises:
  "valid_rows ''id,time,mem,a,b,energy\<newline>r1,fast,10.0,x,y,2.0\<newline>'' =
     [[''r1'', ''fast'', ''10.0'', ''x'', ''y'', ''2.0'']] \<and>
   LoadMetricsFromCSV stod (Some ''id,time,mem,a,b,energy\<newline>r1,fast,10.0,x,y,2.0\<newline>'')
     LweMetrics_init = Inl Invalid_argument"
proof -
  have v: "valid_rows ''id,time,mem,a,b,energy\<newline>r1,fast,10.0,x,y,2.0\<newline>'' =
     [[''r1'', ''fast'', ''10.0'', ''x'', ''y'', ''2.0'']]"
    by (simp add: csv_defs)
  have s: "stod ''fast'' = Inl Invalid_argument"
    by (simp add: stod_defs)
  show ?thesis
    by (simp add: LoadMetricsFromCSV_valid_rows v s)
qed

text \<open>
  Rows that the conversion accepts change the totals only; a row of which it rejects a
  required field ends the loop with the exception of the first field rejected.
\<close>

lemma add_rows_append:
  "\<forall>row \<in> set pre.
     \<exists>x y z. conv (row ! 1) = Inr x \<and> conv (row ! 2) = Inr y \<and> conv (row ! 5) = Inr z \<Longrightarrow>
   \<exists>t'. add_rows conv (pre @ rows) t = add_rows conv rows t'"
proof (induction pre arbitrary: t)
  case Nil
  then show ?case by auto
next
  case (Cons row pre)
  then obtain x y z where
    "conv (row ! 1) = Inr x" "conv (row ! 2) = Inr y" "conv (row ! 5) = Inr z"
    by auto
  with Cons show ?case by simp
qed

lemma add_rows_rejected:
  "conv (row ! 1) = Inl e \<or>
   (\<exists>x. conv (row ! 1) = Inr x \<and> conv (row ! 2) = Inl e) \<or>
   (\<exists>x y. conv (row ! 1) = Inr x \<and> conv (row ! 2) = Inr y \<and> conv (row ! 5) = Inl e) \<Longrightarrow>
   add_rows conv (row # rows) t = Inl e"
  by auto

text \<open>
  C5, as amended. For a file with fewer than \<open>2 ^ 31\<close> rows of six fields or more:
  a data row of fewer than six fields is skipped, so that two files with the same rows
  of six fields or more give the same result, whatever shorter rows stand between
  them; the loader returns normally when the conversion accepts fields 1, 2 and 5 of
  every row of six fields or more; and a row of six fields or more is never skipped:
  the first such row of which the conversion rejects field 1, 2 or 5 ends the load with
  the exception thrown, wherever it stands in the file.
\<close>

theorem short_rows_skipped:
  "length (valid_rows c1) < 2 ^ 31 \<longrightarrow>
   (valid_rows c1 = valid_rows c2 \<longrightarrow>
      LoadMetricsFromCSV conv (Some c1) m = LoadMetricsFromCSV conv (Some c2) m) \<and>
   ((\<forall>row \<in> set (valid_rows c1).
       \<exists>x y z. conv (row ! 1) = Inr x \<and> conv (row ! 2) = Inr y \<and> conv (row ! 5) = Inr z) \<longrightarrow>
      (\<exists>m'. LoadMetricsFromCSV conv (Some c1) m = Inr m')) \<and>
   (valid_rows c1 = pre @ row # post \<and>
    (\<forall>row \<in> set pre.
       \<exists>x y z. conv (row ! 1) = Inr x \<and> conv (row ! 2) = Inr y \<and> conv (row ! 5) = Inr z) \<and>
    (conv (row ! 1) = Inl e \<or>
     (\<exists>x. conv (row ! 1) = Inr x \<and> conv (row ! 2) = Inl e) \<or>
     (\<exists>x y. conv (row ! 1) = Inr x \<and> conv (row ! 2) = Inr y \<and> conv (row ! 5) = Inl e)) \<longrightarrow>
      LoadMetricsFromCSV conv (Some c1) m = Inl e)"
proof (intro conjI impI)
  assume "valid_rows c1 = valid_rows c2"
  then show "LoadMetricsFromCSV conv (Some c1) m = LoadMetricsFromCSV conv (Some c2) m"
    by (simp add: LoadMetricsFromCSV_valid_rows)
next
  assume "\<forall>row \<in> set (valid_rows c1).
       \<exists>x y z. conv (row ! 1) = Inr x \<and> conv (row ! 2) = Inr y \<and> conv (row ! 5) = Inr z"
  from add_rows_returns [OF this] obtain t' where
    "add_rows conv (valid_rows c1) totals_init = Inr t'"
    by blast
  then show "\<exists>m'. LoadMetricsFromCSV conv (Some c1) m = Inr m'"
    by (simp add: LoadMetricsFromCSV_valid_rows)
next
  assume a: "valid_rows c1 = pre @ row # post \<and>
    (\<forall>row \<in> set pre.
       \<exists>x y z. conv (row ! 1) = Inr x \<and> conv (row ! 2) = Inr y \<and> conv (row ! 5) = Inr z) \<and>
    (conv (row ! 1) = Inl e \<or>
     (\<exists>x. conv (row ! 1) = Inr x \<and> conv (row ! 2) = Inl e) \<or>
     (\<exists>x y. conv (row ! 1) = Inr x \<and> conv (row ! 2) = Inr y \<and> conv (row ! 5) = Inl e))"
  then obtain t' where
    "add_rows conv (pre @ row # post) totals_init = add_rows conv (row # post) t'"
    using add_rows_append [of pre conv "row # post" totals_init] by blast
  moreover from a have "add_rows conv (row # post) t' = Inl e"
    by (intro add_rows_rejected) blast
  ultimately show "LoadMetricsFromCSV conv (Some c1) m = Inl e"
    using a by (simp add: LoadMetricsFromCSV_valid_rows)
qed

text \<open>
  The theorem at the file of P3, one well-formed row and one row of three fields, whose
  profile is the one of the file with the well-formed row alone, its averages that
  row's values; and at a file in which a row with a field 5 that is no number follows a
  well-formed row and a short row, and is followed by another well-formed row.
\<close>

theorem short_rows_skipped_witness:
  "valid_rows ''id,time,mem,a,b,energy\<newline>r1,1.5,10.0,x,y,2.5\<newline>r2,9.0,9.0\<newline>'' =
     [[''r1'', ''1.5'', ''10.0'', ''x'', ''y'', ''2.5'']] \<and>
   valid_rows ''id,time,mem,a,b,energy\<newline>r1,1.5,10.0,x,y,2.5\<newline>'' =
     [[''r1'', ''1.5'', ''10.0'', ''x'', ''y'', ''2.5'']] \<and>
   LoadMetricsFromCSV stod
     (Some ''id,time,mem,a,b,energy\<newline>r1,1.5,10.0,x,y,2.5\<newline>r2,9.0,9.0\<newline>'')
     LweMetrics_init =
   LoadMetricsFromCSV stod
     (Some ''id,time,mem,a,b,energy\<newline>r1,1.5,10.0,x,y,2.5\<newline>'') LweMetrics_init \<and>
   LoadMetricsFromCSV stod
     (Some ''id,time,mem,a,b,energy\<newline>r1,1.5,10.0,x,y,2.5\<newline>r2,9.0,9.0\<newline>'')
     LweMetrics_init =
     Inr \<lparr>avg_computation_time_ms = Val 1.5, avg_memory_kb = Val 10.0,
          avg_energy_mj = Val 2.5, key_size_bytes = 256, public_data_bytes = 16640\<rparr> \<and>
   valid_rows
     ''id,time,mem,a,b,energy\<newline>r1,1.5,10.0,x,y,2.5\<newline>r2,9.0\<newline>r3,1.0,10.0,x,y,oops\<newline>r4,1.0,1.0,x,y,1.0\<newline>'' =
     [[''r1'', ''1.5'', ''10.0'', ''x'', ''y'', ''2.5''],
      [''r3'', ''1.0'', ''10.0'', ''x'', ''y'', ''oops''],
      [''r4'', ''1.0'', ''1.0'', ''x'', ''y'', ''1.0'']] \<and>
   LoadMetricsFromCSV stod
     (Some ''id,time,mem,a,b,energy\<newline>r1,1.5,10.0,x,y,2.5\<newline>r2,9.0\<newline>r3,1.0,10.0,x,y,oops\<newline>r4,1.0,1.0,x,y,1.0\<newline>'')
     LweMetrics_init = Inl Invalid_argument"
proof -
  let ?c1 = "''id,time,mem,a,b,energy\<newline>r1,1.5,10.0,x,y,2.5\<newline>r2,9.0,9.0\<newline>''"
  let ?c2 = "''id,time,mem,a,b,energy\<newline>r1,1.5,10.0,x,y,2.5\<newline>''"
  let ?c3 = "''id,time,mem,a,b,energy\<newline>r1,1.5,10.0,x,y,2.5\<newline>r2,9.0\<newline>r3,1.0,10.0,x,y,oops\<newline>r4,1.0,1.0,x,y,1.0\<newline>''"
  let ?r1 = "[''r1'', ''1.5'', ''10.0'', ''x'', ''y'', ''2.5'']"
  let ?r3 = "[''r3'', ''1.0'', ''10.0'', ''x'', ''y'', ''oops'']"
  let ?r4 = "[''r4'', ''1.0'', ''1.0'', ''x'', ''y'', ''1.0'']"
  have v1: "valid_rows ?c1 = [?r1]"
    by (simp add: csv_defs)
  have v2: "valid_rows ?c2 = [?r1]"
    by (simp add: csv_defs)
  have v3: "valid_rows ?c3 = [?r1] @ ?r3 # [?r4]"
    by (simp add: csv_defs)
  have s: "stod ''1.5'' = Inr (Val 1.5)" "stod ''10.0'' = Inr (Val 10)"
    "stod ''2.5'' = Inr (Val 2.5)" "stod ''1.0'' = Inr (Val 1)"
    "stod ''oops'' = Inl Invalid_argument"
    by (simp_all add: stod_defs)
  have r: "LoadMetricsFromCSV stod (Some ?c2) LweMetrics_init =
     Inr \<lparr>avg_computation_time_ms = Val 1.5, avg_memory_kb = Val 10.0,
          avg_energy_mj = Val 2.5, key_size_bytes = 256, public_data_bytes = 16640\<rparr>"
    by (simp add: LoadMetricsFromCSV_valid_rows v2 s totals_init_def double_of_int_def
        LweMetrics_init_def)
  have skipped: "LoadMetricsFromCSV stod (Some ?c1) LweMetrics_init =
      LoadMetricsFromCSV stod (Some ?c2) LweMetrics_init"
    using short_rows_skipped [of ?c1 ?c2 stod LweMetrics_init "[]" ?r1 "[]" Invalid_argument]
      v1 v2
    by simp
  have ended: "LoadMetricsFromCSV stod (Some ?c3) LweMetrics_init = Inl Invalid_argument"
    using short_rows_skipped [of ?c3 ?c3 stod LweMetrics_init "[?r1]" ?r3 "[?r4]" Invalid_argument]
      v3 s
    by simp
  show ?thesis
    using skipped ended v1 v2 v3 r by simp
qed

text \<open>
  C5 as stated fails: the first data row of this file has six fields and a field 2 that
  is no number. The row is not skipped; the conversion throws, and the loader ends with
  the exception instead of computing the profile from the second row.
\<close>

theorem load_bad_row_not_skipped:
  "valid_rows ''id,time,mem,a,b,energy\<newline>r1,1.0,n/a,x,y,2.0\<newline>r2,3.0,20.0,x,y,4.0\<newline>'' =
     [[''r1'', ''1.0'', ''n/a'', ''x'', ''y'', ''2.0''],
      [''r2'', ''3.0'', ''20.0'', ''x'', ''y'', ''4.0'']] \<and>
   LoadMetricsFromCSV stod
     (Some ''id,time,mem,a,b,energy\<newline>r1,1.0,n/a,x,y,2.0\<newline>r2,3.0,20.0,x,y,4.0\<newline>'')
     LweMetrics_init = Inl Invalid_argument"
proof -
  have v: "valid_rows
      ''id,time,mem,a,b,energy\<newline>r1,1.0,n/a,x,y,2.0\<newline>r2,3.0,20.0,x,y,4.0\<newline>'' =
     [[''r1'', ''1.0'', ''n/a'', ''x'', ''y'', ''2.0''],
      [''r2'', ''3.0'', ''20.0'', ''x'', ''y'', ''4.0'']]"
    by (simp add: csv_defs)
  have s: "stod ''1.0'' = Inr (Val 1)" "stod ''n/a'' = Inl Invalid_argument"
    by (simp_all add: stod_defs)
  show ?thesis
    by (simp add: LoadMetricsFromCSV_valid_rows v s)
qed


section \<open>Properties of the client set-up\<close>

text \<open>
  The loop, entered with \<open>i\<close> not above the node count, adds the nodes still to come
  to the counter and installs one client for each of them.
\<close>

lemma client_loop_result:
  "i \<le> nIoTNodes \<Longrightarrow>
   client_loop nIoTNodes simTime i (g, apps) =
     (g\<lparr>g_totalPacketsSent := g_totalPacketsSent g + (nIoTNodes - i)\<rparr>,
      apps @ map (scheduled simTime (g_metrics g)) [unat i ..< unat nIoTNodes])"
proof (induction nIoTNodes simTime i "(g, apps)" arbitrary: g apps rule: client_loop.induct)
  case (1 nIoTNodes simTime i g apps)
  show ?case
  proof (cases "i < nIoTNodes")
    case False
    with "1.prems" have "i = nIoTNodes" by simp
    then show ?thesis
      by (simp add: client_loop.simps [of nIoTNodes simTime nIoTNodes])
  next
    case True
    then have le: "i + 1 \<le> nIoTNodes"
      by (rule inc_le)
    from True have lt: "unat i < unat nIoTNodes"
      by (simp add: word_less_nat_alt)
    have suc: "unat (i + 1) = Suc (unat i)"
      using unat_succ_below [OF True] by simp
    have upt: "[unat i ..< unat nIoTNodes] = unat i # [Suc (unat i) ..< unat nIoTNodes]"
      using lt by (simp add: upt_conv_Cons)
    show ?thesis
      using "1.hyps" [OF True le] True
      by (simp add: client_loop.simps [of nIoTNodes simTime i] suc upt scheduled_def)
  qed
qed

text \<open>The receive callback changes neither the packets-sent counter nor the profile.\<close>

lemma RxCallback_funpow:
  "g_totalPacketsSent ((RxCallback ^^ k) g) = g_totalPacketsSent g \<and>
   g_metrics ((RxCallback ^^ k) g) = g_metrics g"
  by (induction k) (simp_all add: RxCallback_def)



text \<open>
  The order of the start times does not rest on exact arithmetic. With every finite
  operation of the start time rounded by a function that stays within \<open>2 ^ -13\<close>
  of its argument on magnitudes up to \<open>2 ^ 41\<close>, as the rounding to the nearest
  double does, the start times still increase strictly with the node index, for an
  offset of at most \<open>10 ^ 12\<close> and a computation time of at most \<open>10 ^ 15\<close> in
  magnitude.
\<close>

lemma rounded_start_increasing:
  assumes rnd: "\<And>x. \<bar>x\<bar> \<le> 2 ^ 41 \<Longrightarrow> \<bar>rnd x - x\<bar> \<le> 1 / 2 ^ 13"
    and b: "\<bar>b\<bar> \<le> 10 ^ 12" and c: "\<bar>c\<bar> \<le> 10 ^ 15"
    and ij: "i < j" and j: "j < 2 ^ 32"
  shows "rounded_start rnd b i c < rounded_start rnd b j c"
proof -
  define p where "p k = rnd (real k * 0.5)" for k
  define t where "t k = rnd (b + p k)" for k
  define d where "d = rnd (c / 1000.0)"
  have near: "\<bar>rnd x - x\<bar> \<le> 1 / 8192" if "\<bar>x\<bar> \<le> 2199023255552" for x
    using rnd [of x] that by simp
  from b have b': "\<bar>b\<bar> \<le> 1000000000000" by simp
  from c have c': "\<bar>c / 1000\<bar> \<le> 1000000000000" by simp
  have half: "0 \<le> real k / 2" "real k / 2 \<le> 2147483648" if "k < 2 ^ 32" for k :: nat
  proof -
    from that have "real k < real (2 ^ 32 :: nat)"
      by (simp only: of_nat_less_iff)
    then show "real k / 2 \<le> 2147483648" by simp
    show "0 \<le> real k / 2" by simp
  qed
  have p: "\<bar>p k - real k / 2\<bar> \<le> 1 / 8192" if "k < 2 ^ 32" for k
  proof -
    from half [OF that] have "\<bar>real k / 2\<bar> \<le> 2199023255552" by linarith
    from near [OF this] show ?thesis by (simp add: p_def)
  qed
  have t: "\<bar>t k - (b + p k)\<bar> \<le> 1 / 8192" if "k < 2 ^ 32" for k
  proof -
    from p [OF that] half [OF that] b' have "\<bar>b + p k\<bar> \<le> 2199023255552" by linarith
    from near [OF this] show ?thesis by (simp add: t_def)
  qed
  have d: "\<bar>d - c / 1000\<bar> \<le> 1 / 8192"
  proof -
    from c' have "\<bar>c / 1000\<bar> \<le> 2199023255552" by linarith
    from near [OF this] show ?thesis by (simp add: d_def)
  qed
  have s: "\<bar>rnd (t k + d) - (t k + d)\<bar> \<le> 1 / 8192" if "k < 2 ^ 32" for k
  proof -
    from t [OF that] p [OF that] half [OF that] b' d c' have "\<bar>t k + d\<bar> \<le> 2199023255552"
      by linarith
    from near [OF this] show ?thesis .
  qed
  from ij j have i: "i < 2 ^ 32" by simp
  from ij have "real i + 1 \<le> real j"
    by (metis Suc_leI of_nat_Suc of_nat_le_iff add.commute)
  then have step: "real i / 2 + 1 / 2 \<le> real j / 2"
    by simp
  have "rnd (t i + d) < rnd (t j + d)"
    using s [OF i] s [OF j] t [OF i] t [OF j] p [OF i] p [OF j] step by linarith
  then show ?thesis
    by (simp add: rounded_start_def t_def p_def d_def)
qed

lemma unat_of_nat_below:
  fixes n :: "32 word"
  assumes "k < unat n"
  shows "unat (of_nat k :: 32 word) = k"
proof -
  have "unat n < 2 ^ 32"
    using unsigned_less [of n, where ?'a = nat] by simp
  with assms have "k < 2 ^ 32" by simp
  then show ?thesis
    by (simp add: unat_of_nat)
qed

text \<open>
  C6, as amended. For every node index below the node count, the client installed for
  that node starts at \<open>2.0 + index * 0.5 + avg_computation_time_ms / 1000.0\<close> and
  sends packets of \<open>public_data_bytes\<close> bytes, the same for every node; the start time
  is the offset plus \<open>i * 0.5\<close> plus the computation time over 1000 for every offset,
  index and profile. For a finite offset of magnitude at most \<open>10 ^ 12\<close> seconds and
  a profile whose computation time is finite and of magnitude at most \<open>10 ^ 15\<close>
  milliseconds, the start times are strictly increasing in the node index.
\<close>

theorem client_schedule:
  "(k < unat nIoTNodes \<longrightarrow>
      start_seconds (snd (client_loop nIoTNodes simTime 0 (g, [])) ! k) =
        dadd (dadd (Val 2.0) (dmul (Val (real k)) (Val 0.5)))
             (ddiv (avg_computation_time_ms (g_metrics g)) (Val 1000.0)) \<and>
      PacketSize (snd (client_loop nIoTNodes simTime 0 (g, [])) ! k) =
        public_data_bytes (g_metrics g)) \<and>
   client_start base i m =
     dadd (dadd base (dmul (Val (real (unat i))) (Val 0.5)))
          (ddiv (avg_computation_time_ms m) (Val 1000.0)) \<and>
   (avg_computation_time_ms m = Val c \<and> \<bar>c\<bar> \<le> 10 ^ 15 \<and> \<bar>b\<bar> \<le> 10 ^ 12 \<and> i < j \<longrightarrow>
      dless (client_start (Val b) i m) (client_start (Val b) j m))"
proof (intro conjI impI)
  assume k: "k < unat nIoTNodes"
  then have nth: "snd (client_loop nIoTNodes simTime 0 (g, [])) ! k =
      scheduled simTime (g_metrics g) k"
    by (simp add: client_loop_result)
  show "start_seconds (snd (client_loop nIoTNodes simTime 0 (g, [])) ! k) =
        dadd (dadd (Val 2.0) (dmul (Val (real k)) (Val 0.5)))
             (ddiv (avg_computation_time_ms (g_metrics g)) (Val 1000.0))"
    by (simp add: nth scheduled_def client_start_def double_of_u32_def unat_of_nat_below [OF k])
  show "PacketSize (snd (client_loop nIoTNodes simTime 0 (g, [])) ! k) =
        public_data_bytes (g_metrics g)"
    by (simp add: nth scheduled_def)
next
  show "client_start base i m =
     dadd (dadd base (dmul (Val (real (unat i))) (Val 0.5)))
          (ddiv (avg_computation_time_ms m) (Val 1000.0))"
    by (simp add: client_start_def double_of_u32_def)
next
  assume a: "avg_computation_time_ms m = Val c \<and> \<bar>c\<bar> \<le> 10 ^ 15 \<and> \<bar>b\<bar> \<le> 10 ^ 12 \<and> i < j"
  then have "unat i < unat j"
    by (simp add: word_less_nat_alt)
  then have "real (unat i) < real (unat j)"
    by (simp only: of_nat_less_iff)
  with a show "dless (client_start (Val b) i m) (client_start (Val b) j m)"
    by (simp add: client_start_def double_of_u32_def)
qed

text \<open>
  The theorem at three nodes and the default profile: the start time and the 16640
  bytes of node 2, and node 0 starting before node 1.
\<close>

theorem client_schedule_witness:
  "start_seconds (snd (client_loop 3 (Val 10) 0 (globals_init, [])) ! 2) =
     dadd (dadd (Val 2.0) (dmul (Val 2) (Val 0.5))) (ddiv (Val 0.5) (Val 1000.0)) \<and>
   PacketSize (snd (client_loop 3 (Val 10) 0 (globals_init, [])) ! 2) = 16640 \<and>
   client_start (Val 2) 1 LweMetrics_init =
     dadd (dadd (Val 2) (dmul (Val 1) (Val 0.5))) (ddiv (Val 0.5) (Val 1000.0)) \<and>
   dless (client_start (Val 2) 0 LweMetrics_init) (client_start (Val 2) 1 LweMetrics_init)"
  using client_schedule [of 2 3 "Val 10" globals_init "Val 2" 1 LweMetrics_init "0.5" 2 2]
    client_schedule [of 2 3 "Val 10" globals_init "Val 2" 0 LweMetrics_init "0.5" 2 1]
  by (simp add: globals_init_def LweMetrics_init_def)

text \<open>
  C6 as stated fails: the file below has \<^verbatim>\<open>inf\<close> in its time column, which the
  conversion reads as infinity. With the profile loaded from it the start times of
  node 0 and node 1 are both infinite, so the second is not greater than the first.
\<close>

theorem client_schedule_infinite:
  "LoadMetricsFromCSV stod (Some ''id,time,mem,a,b,energy\<newline>r1,inf,10.0,x,y,2.0\<newline>'')
     LweMetrics_init =
     Inr (LweMetrics_init\<lparr>avg_computation_time_ms := PosInf, avg_memory_kb := Val 10,
            avg_energy_mj := Val 2\<rparr>) \<and>
   client_start (Val 2) 0
     (LweMetrics_init\<lparr>avg_computation_time_ms := PosInf, avg_memory_kb := Val 10,
        avg_energy_mj := Val 2\<rparr>) = PosInf \<and>
   client_start (Val 2) 1
     (LweMetrics_init\<lparr>avg_computation_time_ms := PosInf, avg_memory_kb := Val 10,
        avg_energy_mj := Val 2\<rparr>) = PosInf \<and>
   \<not> dless
       (client_start (Val 2) 0
          (LweMetrics_init\<lparr>avg_computation_time_ms := PosInf, avg_memory_kb := Val 10,
             avg_energy_mj := Val 2\<rparr>))
       (client_start (Val 2) 1
          (LweMetrics_init\<lparr>avg_computation_time_ms := PosInf, avg_memory_kb := Val 10,
             avg_energy_mj := Val 2\<rparr>))"
proof -
  have v: "valid_rows ''id,time,mem,a,b,energy\<newline>r1,inf,10.0,x,y,2.0\<newline>'' =
      [[''r1'', ''inf'', ''10.0'', ''x'', ''y'', ''2.0'']]"
    by (simp add: csv_defs)
  have s: "stod ''inf'' = Inr PosInf" "stod ''10.0'' = Inr (Val 10)" "stod ''2.0'' = Inr (Val 2)"
    by (simp_all add: stod_defs)
  have "LoadMetricsFromCSV stod (Some ''id,time,mem,a,b,energy\<newline>r1,inf,10.0,x,y,2.0\<newline>'')
     LweMetrics_init =
     Inr (LweMetrics_init\<lparr>avg_computation_time_ms := PosInf, avg_memory_kb := Val 10,
            avg_energy_mj := Val 2\<rparr>)"
    by (simp add: LoadMetricsFromCSV_valid_rows v s totals_init_def double_of_int_def
        inf_of_sign_def)
  then show ?thesis
    by (simp add: client_start_def double_of_u32_def inf_of_sign_def)
qed

section \<open>Properties of the statistics\<close>

text \<open>What the loop over the flows leaves in each accumulator.\<close>

lemma flow_loop_tx:
  "totalTxPackets (flow_loop simTime flows a) =
     totalTxPackets a + sum_list (map (\<lambda>flow. txPackets (snd flow)) flows)"
  by (induction flows arbitrary: a) (simp_all add: Let_def add.assoc)

lemma flow_loop_rx:
  "totalRxPackets (flow_loop simTime flows a) =
     totalRxPackets a + sum_list (map (\<lambda>flow. rxPackets (snd flow)) flows)"
  by (induction flows arbitrary: a) (simp_all add: Let_def add.assoc)

lemma flow_loop_delay:
  "totalDelay (flow_loop simTime flows a) =
     foldl dadd (totalDelay a)
       (map (\<lambda>flow. delaySum (snd flow)) (filter (\<lambda>flow. 0 < rxPackets (snd flow)) flows))"
  by (induction flows arbitrary: a) (simp_all add: Let_def)

lemma flow_loop_throughput:
  "totalThroughput (flow_loop simTime flows a) =
     foldl dadd (totalThroughput a)
       (map (\<lambda>flow. ddiv (ddiv (dmul (double_of_u64 (rxBytes (snd flow))) (Val 8.0)) simTime)
                       (Val 1000.0))
            (filter (\<lambda>flow. 0 < rxPackets (snd flow)) flows))"
  by (induction flows arbitrary: a) (simp_all add: Let_def)

lemma unat_sum_list:
  "unat (sum_list (map f xs) :: 32 word) = (\<Sum>x\<leftarrow>xs. unat (f x)) mod 2 ^ 32"
proof (induction xs)
  case Nil
  show ?case by simp
next
  case (Cons x xs)
  have "unat (f x + sum_list (map f xs)) = (unat (f x) + unat (sum_list (map f xs))) mod 2 ^ 32"
    by (simp add: unat_word_ariths)
  also have "\<dots> = (unat (f x) + (\<Sum>x\<leftarrow>xs. unat (f x)) mod 2 ^ 32) mod 2 ^ 32"
    by (simp add: Cons.IH)
  also have "\<dots> = (unat (f x) + (\<Sum>x\<leftarrow>xs. unat (f x))) mod 2 ^ 32"
    by (simp add: mod_add_right_eq)
  finally show ?case by simp
qed

text \<open>
  C2, as amended. For every list of flow records, every simulation time and every
  profile, the two packet totals are the sums of \<open>txPackets\<close> and of \<open>rxPackets\<close> over
  all flows modulo \<open>2 ^ 32\<close> (the accumulators are 32-bit unsigned); the delay and the
  throughput accumulate, in the order of the flows, over the flows with
  \<open>rxPackets > 0\<close> only, each giving \<open>delaySum\<close> and
  \<open>rxBytes * 8.0 / simTime / 1000.0\<close>; the average delay is
  \<open>totalDelay / totalRx * 1000.0\<close> if \<open>totalRx > 0\<close> and 0 otherwise, and the PDR is
  \<open>totalRx / totalTx * 100.0\<close> if \<open>totalTx > 0\<close> and 0 otherwise, on those totals.
\<close>

theorem statistics_formulas:
  fixes stats :: "(32 word \<times> FlowStats) list" and simTime :: double and g :: globals
  defines "st \<equiv> compute_statistics simTime g stats"
    and "received \<equiv> filter (\<lambda>flow. 0 < rxPackets (snd flow)) stats"
    and "totalTx \<equiv> (\<Sum>flow\<leftarrow>stats. unat (txPackets (snd flow))) mod 2 ^ 32"
    and "totalRx \<equiv> (\<Sum>flow\<leftarrow>stats. unat (rxPackets (snd flow))) mod 2 ^ 32"
  shows "unat (totalTxPackets (totals st)) = totalTx \<and>
         unat (totalRxPackets (totals st)) = totalRx \<and>
         totalDelay (totals st) = dsum (map (\<lambda>flow. delaySum (snd flow)) received) \<and>
         totalThroughput (totals st) =
           dsum (map (\<lambda>flow. ddiv (ddiv (dmul (Val (real (unat (rxBytes (snd flow))))) (Val 8.0))
                                      simTime) (Val 1000.0)) received) \<and>
         avgDelay st =
           (if 0 < totalRx
            then dmul (ddiv (totalDelay (totals st)) (Val (real totalRx))) (Val 1000.0)
            else Val 0) \<and>
         pdr st =
           (if 0 < totalTx
            then dmul (ddiv (Val (real totalRx)) (Val (real totalTx))) (Val 100.0)
            else Val 0)"
proof -
  have tx: "unat (totalTxPackets (totals st)) = totalTx"
    by (simp add: st_def totalTx_def compute_statistics_def Let_def flow_loop_tx flow_totals_init_def
        unat_sum_list)
  have rx: "unat (totalRxPackets (totals st)) = totalRx"
    by (simp add: st_def totalRx_def compute_statistics_def Let_def flow_loop_rx flow_totals_init_def
        unat_sum_list)
  have txpos: "0 < totalTxPackets (totals st) \<longleftrightarrow> 0 < totalTx"
    using tx by (simp add: word_less_nat_alt)
  have rxpos: "0 < totalRxPackets (totals st) \<longleftrightarrow> 0 < totalRx"
    using rx by (simp add: word_less_nat_alt)
  have delay: "totalDelay (totals st) = dsum (map (\<lambda>flow. delaySum (snd flow)) received)"
    by (simp add: st_def received_def compute_statistics_def Let_def flow_loop_delay
        flow_totals_init_def dsum_def)
  have thr: "totalThroughput (totals st) =
           dsum (map (\<lambda>flow. ddiv (ddiv (dmul (Val (real (unat (rxBytes (snd flow))))) (Val 8.0))
                                      simTime) (Val 1000.0)) received)"
    by (simp add: st_def received_def compute_statistics_def Let_def flow_loop_throughput
        flow_totals_init_def dsum_def double_of_u64_def)
  have avg: "avgDelay st =
           (if 0 < totalRxPackets (totals st)
            then dmul (ddiv (totalDelay (totals st))
                   (Val (real (unat (totalRxPackets (totals st)))))) (Val 1000.0)
            else Val 0)"
    by (simp add: st_def compute_statistics_def Let_def double_of_u32_def)
  have p: "pdr st =
           (if 0 < totalTxPackets (totals st)
            then dmul (ddiv (Val (real (unat (totalRxPackets (totals st)))))
                   (Val (real (unat (totalTxPackets (totals st)))))) (Val 100.0)
            else Val 0)"
    by (simp add: st_def compute_statistics_def Let_def double_of_u32_def)
  show ?thesis
    using tx rx delay thr avg p txpos rxpos by simp
qed


lemmas stats_defs = compute_statistics_def Let_def flow_totals_init_def double_of_u32_def
  double_of_u64_def

text \<open>
  C2 as stated fails: two flows of \<open>2 ^ 31\<close> packets each, all of them received. The
  sum of \<open>txPackets\<close> is \<open>2 ^ 32\<close>, the total the loop holds is 0, and the PDR computed
  is 0 where the sums give 100.
\<close>

theorem statistics_sum_wraps:
  "(\<Sum>flow\<leftarrow>[(1 :: 32 word, \<lparr>txPackets = 2147483648, rxPackets = 2147483648,
                        delaySum = Val 1, rxBytes = 1000\<rparr>),
                 (2, \<lparr>txPackets = 2147483648, rxPackets = 2147483648,
                        delaySum = Val 1, rxBytes = 1000\<rparr>)]. unat (txPackets (snd flow)))
     = 4294967296 \<and>
   unat (totalTxPackets (totals (compute_statistics (Val 10) globals_init
     [(1, \<lparr>txPackets = 2147483648, rxPackets = 2147483648, delaySum = Val 1, rxBytes = 1000\<rparr>),
      (2, \<lparr>txPackets = 2147483648, rxPackets = 2147483648, delaySum = Val 1, rxBytes = 1000\<rparr>)])))
     = 0 \<and>
   pdr (compute_statistics (Val 10) globals_init
     [(1, \<lparr>txPackets = 2147483648, rxPackets = 2147483648, delaySum = Val 1, rxBytes = 1000\<rparr>),
      (2, \<lparr>txPackets = 2147483648, rxPackets = 2147483648, delaySum = Val 1, rxBytes = 1000\<rparr>)])
     = Val 0"
  by (simp add: stats_defs)

lemma dle_Val: "dle (Val a) (Val b) \<longleftrightarrow> a \<le> b"
  by auto

lemma sum_list_unat_mono:
  "\<forall>flow \<in> set stats. rxPackets (snd flow) \<le> txPackets (snd flow) \<Longrightarrow>
   (\<Sum>flow\<leftarrow>stats. unat (rxPackets (snd flow))) \<le> (\<Sum>flow\<leftarrow>stats. unat (txPackets (snd flow)))"
  by (induction stats) (auto simp: word_le_nat_alt intro: add_mono)

lemma sum_list_zero:
  "\<forall>flow \<in> set stats. rxPackets (snd flow) = 0 \<Longrightarrow>
   sum_list (map (\<lambda>flow. rxPackets (snd flow)) stats) = 0"
  by (induction stats) auto

lemma filter_none_received:
  "\<forall>flow \<in> set stats. rxPackets (snd flow) = 0 \<Longrightarrow>
   filter (\<lambda>flow. 0 < rxPackets (snd flow)) stats = []"
  by (induction stats) auto

text \<open>
  C3, as amended. If every flow has \<open>rxPackets \<le> txPackets\<close> and the sum of
  \<open>txPackets\<close> over the flows is below \<open>2 ^ 32\<close>, the PDR is a number between 0 and
  100. If every flow has \<open>rxPackets = 0\<close>, then the PDR, the average delay and the
  throughput are the number 0, for every simulation time (zero included), so neither
  an infinity nor a NaN.
\<close>

theorem pdr_in_range:
  fixes stats :: "(32 word \<times> FlowStats) list" and simTime :: double and g :: globals
  defines "st \<equiv> compute_statistics simTime g stats"
  shows "((\<forall>flow \<in> set stats. rxPackets (snd flow) \<le> txPackets (snd flow)) \<and>
          (\<Sum>flow\<leftarrow>stats. unat (txPackets (snd flow))) < 2 ^ 32 \<longrightarrow>
            dle (Val 0) (pdr st) \<and> dle (pdr st) (Val 100)) \<and>
         ((\<forall>flow \<in> set stats. rxPackets (snd flow) = 0) \<longrightarrow>
            pdr st = Val 0 \<and> avgDelay st = Val 0 \<and> totalThroughput (totals st) = Val 0)"
proof (intro conjI impI)
  assume a: "(\<forall>flow \<in> set stats. rxPackets (snd flow) \<le> txPackets (snd flow)) \<and>
          (\<Sum>flow\<leftarrow>stats. unat (txPackets (snd flow))) < 2 ^ 32"
  define T where "T = (\<Sum>flow\<leftarrow>stats. unat (txPackets (snd flow)))"
  define R where "R = (\<Sum>flow\<leftarrow>stats. unat (rxPackets (snd flow)))"
  from a have RT: "R \<le> T" and T: "T < 2 ^ 32"
    by (simp_all add: R_def T_def sum_list_unat_mono)
  have tx: "unat (totalTxPackets (totals st)) = T"
    using T by (simp add: st_def T_def stats_defs flow_loop_tx unat_sum_list)
  have rx: "unat (totalRxPackets (totals st)) = R"
    using RT T by (simp add: st_def R_def stats_defs flow_loop_rx unat_sum_list)
  have p: "pdr st = (if 0 < T then Val (real R / real T * 100) else Val 0)"
  proof -
    have "pdr st =
           (if 0 < totalTxPackets (totals st)
            then dmul (ddiv (Val (real (unat (totalRxPackets (totals st)))))
                   (Val (real (unat (totalTxPackets (totals st)))))) (Val 100)
            else Val 0)"
      by (simp add: st_def stats_defs)
    moreover have "0 < totalTxPackets (totals st) \<longleftrightarrow> 0 < T"
      using tx by (simp add: word_less_nat_alt)
    ultimately show ?thesis
      by (simp add: tx rx)
  qed
  have "0 \<le> real R / real T * 100" by simp
  moreover have "real R / real T * 100 \<le> 100" if "0 < T"
    using RT that by (simp add: divide_le_eq)
  ultimately show "dle (Val 0) (pdr st)" and "dle (pdr st) (Val 100)"
    by (simp_all only: p dle_Val split: if_split) simp_all
next
  assume z: "\<forall>flow \<in> set stats. rxPackets (snd flow) = 0"
  have rx: "totalRxPackets (totals st) = 0"
    by (simp add: st_def stats_defs flow_loop_rx sum_list_zero [OF z])
  show "avgDelay st = Val 0"
    using rx by (simp add: st_def stats_defs)
  show "totalThroughput (totals st) = Val 0"
    by (simp add: st_def stats_defs flow_loop_throughput filter_none_received [OF z])
  show "pdr st = Val 0"
    using rx by (simp add: st_def stats_defs unsigned_eq_0_iff)
qed

text \<open>
  The theorem at the two fully delivered flows of P6 and at the two flows of P5, ten
  packets sent and none received.
\<close>

theorem pdr_in_range_witness:
  "dle (Val 0) (pdr (compute_statistics (Val 10) globals_init
     [(1, \<lparr>txPackets = 1, rxPackets = 1, delaySum = Val 0.01, rxBytes = 16640\<rparr>),
      (2, \<lparr>txPackets = 1, rxPackets = 1, delaySum = Val 0.01, rxBytes = 16640\<rparr>)])) \<and>
   dle (pdr (compute_statistics (Val 10) globals_init
     [(1, \<lparr>txPackets = 1, rxPackets = 1, delaySum = Val 0.01, rxBytes = 16640\<rparr>),
      (2, \<lparr>txPackets = 1, rxPackets = 1, delaySum = Val 0.01, rxBytes = 16640\<rparr>)])) (Val 100) \<and>
   pdr (compute_statistics (Val 10) globals_init
     [(1, \<lparr>txPackets = 10, rxPackets = 0, delaySum = Val 0, rxBytes = 0\<rparr>),
      (2, \<lparr>txPackets = 10, rxPackets = 0, delaySum = Val 0, rxBytes = 0\<rparr>)]) = Val 0 \<and>
   avgDelay (compute_statistics (Val 10) globals_init
     [(1, \<lparr>txPackets = 10, rxPackets = 0, delaySum = Val 0, rxBytes = 0\<rparr>),
      (2, \<lparr>txPackets = 10, rxPackets = 0, delaySum = Val 0, rxBytes = 0\<rparr>)]) = Val 0 \<and>
   totalThroughput (totals (compute_statistics (Val 10) globals_init
     [(1, \<lparr>txPackets = 10, rxPackets = 0, delaySum = Val 0, rxBytes = 0\<rparr>),
      (2, \<lparr>txPackets = 10, rxPackets = 0, delaySum = Val 0, rxBytes = 0\<rparr>)])) = Val 0"
  using
    pdr_in_range [of "[(1, \<lparr>txPackets = 1, rxPackets = 1, delaySum = Val 0.01, rxBytes = 16640\<rparr>),
      (2, \<lparr>txPackets = 1, rxPackets = 1, delaySum = Val 0.01, rxBytes = 16640\<rparr>)]"
      "Val 10" globals_init]
    pdr_in_range [of "[(1, \<lparr>txPackets = 10, rxPackets = 0, delaySum = Val 0, rxBytes = 0\<rparr>),
      (2, \<lparr>txPackets = 10, rxPackets = 0, delaySum = Val 0, rxBytes = 0\<rparr>)]"
      "Val 10" globals_init]
  by simp

text \<open>
  C3 as stated fails: both flows have \<open>rxPackets \<le> txPackets\<close>, the total of
  \<open>txPackets\<close> wraps around to 1, and the PDR is 500.
\<close>

theorem pdr_above_100:
  "list_all (\<lambda>flow. rxPackets (snd flow) \<le> txPackets (snd flow))
     [(1 :: 32 word, \<lparr>txPackets = 4294967295, rxPackets = 5, delaySum = Val 0.05, rxBytes = 500\<rparr>),
      (2, \<lparr>txPackets = 2, rxPackets = 0, delaySum = Val 0, rxBytes = 0\<rparr>)] \<and>
   pdr (compute_statistics (Val 10) globals_init
     [(1, \<lparr>txPackets = 4294967295, rxPackets = 5, delaySum = Val 0.05, rxBytes = 500\<rparr>),
      (2, \<lparr>txPackets = 2, rxPackets = 0, delaySum = Val 0, rxBytes = 0\<rparr>)]) = Val 500 \<and>
   \<not> dle (Val 500) (Val 100)"
  by (simp add: stats_defs)

text \<open>
  C7. The total energy is the packets-sent counter times the profile's energy per
  operation. It does not depend on the flow records: two runs of the program that differ
  in what the engine delivers (arrivals and flow records) have the same total energy.
\<close>

theorem energy_independent_of_delivery:
  "totalEnergy (compute_statistics simTime g stats) =
     dmul (double_of_u32 (g_totalPacketsSent g)) (avg_energy_mj (g_metrics g)) \<and>
   map_sum id (\<lambda>(g, st). totalEnergy st) (simulate conv nIoTNodes simTime csv arrivals stats) =
   map_sum id (\<lambda>(g, st). totalEnergy st) (simulate conv nIoTNodes simTime csv arrivals' stats')"
proof
  show "totalEnergy (compute_statistics simTime g stats) =
     dmul (double_of_u32 (g_totalPacketsSent g)) (avg_energy_mj (g_metrics g))"
    by (simp add: compute_statistics_def Let_def)
  show "map_sum id (\<lambda>(g, st). totalEnergy st) (simulate conv nIoTNodes simTime csv arrivals stats) =
   map_sum id (\<lambda>(g, st). totalEnergy st) (simulate conv nIoTNodes simTime csv arrivals' stats')"
    by (cases "LoadMetricsFromCSV conv csv (g_metrics globals_init)")
      (simp_all add: simulate_def compute_statistics_def Let_def RxCallback_funpow)
qed


section \<open>Properties of the results writer\<close>

text \<open>A failed stream stays failed; an open one gets the text of the row appended.\<close>

lemma put_cells_Failed: "put_cells fmt Failed cells = Failed"
  by (induction fmt Failed cells rule: put_cells.induct) simp_all

lemma put_cells_Opened:
  "put_cells fmt (Opened bytes) cells = Opened (bytes @ row_text fmt cells)"
  by (induction fmt "Opened bytes" cells arbitrary: bytes rule: put_cells.induct)
    (simp_all add: row_text_def)

lemma save_csv_result:
  "save_csv fmt file nIoTNodes g st =
     (case file of
        Cannot_open \<Rightarrow> Cannot_open
      | Missing \<Rightarrow> Existing (csv_header @ row_text fmt (results_row nIoTNodes g st))
      | Existing bytes \<Rightarrow>
          Existing (bytes @ (if bytes = [] then csv_header else []) @
                    row_text fmt (results_row nIoTNodes g st)))"
  by (cases "file") (simp_all add: save_csv_def Let_def put_cells_Failed put_cells_Opened)

text \<open>
  C8. The position after opening in append mode is 0 exactly when the file did not exist
  or was empty. When the file can be opened, the writer appends the header line
  \<^verbatim>\<open>nodes,packets_sent,packets_received,pdr,avg_delay_ms,throughput_kbps,total_energy_mj,computation_ms,memory_kb\<close>,
  which has nine columns, if and only if that position is 0, and then exactly one row:
  the nine cells in the order nodes, packets sent, packets received, PDR, average delay,
  throughput, total energy, computation time, memory times nodes, with commas between
  and a newline at the end. On a file that did not exist this leaves the header line and
  the row. A second append to the file left by the first appends the second row and
  nothing else.
\<close>

theorem header_written_once:
  "(tellp (open_append file) = 0 \<longleftrightarrow> file = Missing \<or> file = Existing []) \<and>
   save_csv fmt file nIoTNodes g st =
     (case open_append file of
        Failed \<Rightarrow> file
      | Opened bytes \<Rightarrow>
          Existing (bytes @
            (if tellp (open_append file) = 0
             then ''nodes,packets_sent,packets_received,pdr,avg_delay_ms,throughput_kbps,total_energy_mj,computation_ms,memory_kb\<newline>''
             else []) @
            row_text fmt (results_row nIoTNodes g st))) \<and>
   save_csv fmt Missing nIoTNodes g st =
     Existing (''nodes,packets_sent,packets_received,pdr,avg_delay_ms,throughput_kbps,total_energy_mj,computation_ms,memory_kb\<newline>'' @
               row_text fmt (results_row nIoTNodes g st)) \<and>
   split_row ''nodes,packets_sent,packets_received,pdr,avg_delay_ms,throughput_kbps,total_energy_mj,computation_ms,memory_kb'' =
     [''nodes'', ''packets_sent'', ''packets_received'', ''pdr'', ''avg_delay_ms'',
      ''throughput_kbps'', ''total_energy_mj'', ''computation_ms'', ''memory_kb''] \<and>
   row_text fmt (results_row nIoTNodes g st) =
     show_u32 nIoTNodes @ '','' @ show_u32 (g_totalPacketsSent g) @ '','' @
     show_u32 (g_totalPacketsReceived g) @ '','' @ fmt (pdr st) @ '','' @
     fmt (avgDelay st) @ '','' @ fmt (totalThroughput (totals st)) @ '','' @
     fmt (totalEnergy st) @ '','' @ fmt (avg_computation_time_ms (g_metrics g)) @ '','' @
     fmt (dmul (avg_memory_kb (g_metrics g)) (double_of_u32 nIoTNodes)) @ ''\<newline>'' \<and>
   (case open_append file of
      Failed \<Rightarrow> True
    | Opened bytes \<Rightarrow>
        save_csv fmt (save_csv fmt file nIoTNodes g st) nIoTNodes' g' st' =
          Existing (bytes @
            (if bytes = []
             then ''nodes,packets_sent,packets_received,pdr,avg_delay_ms,throughput_kbps,total_energy_mj,computation_ms,memory_kb\<newline>''
             else []) @
            row_text fmt (results_row nIoTNodes g st) @
            row_text fmt (results_row nIoTNodes' g' st')))"
proof (intro conjI)
  show "tellp (open_append file) = 0 \<longleftrightarrow> file = Missing \<or> file = Existing []"
    by (cases "file") simp_all
  show "save_csv fmt file nIoTNodes g st =
     (case open_append file of
        Failed \<Rightarrow> file
      | Opened bytes \<Rightarrow>
          Existing (bytes @
            (if tellp (open_append file) = 0
             then ''nodes,packets_sent,packets_received,pdr,avg_delay_ms,throughput_kbps,total_energy_mj,computation_ms,memory_kb\<newline>''
             else []) @
            row_text fmt (results_row nIoTNodes g st)))"
    by (cases "file") (simp_all add: save_csv_result csv_header_def)
  show "save_csv fmt Missing nIoTNodes g st =
     Existing (''nodes,packets_sent,packets_received,pdr,avg_delay_ms,throughput_kbps,total_energy_mj,computation_ms,memory_kb\<newline>'' @
               row_text fmt (results_row nIoTNodes g st))"
    by (simp add: save_csv_result csv_header_def)
  show "split_row ''nodes,packets_sent,packets_received,pdr,avg_delay_ms,throughput_kbps,total_energy_mj,computation_ms,memory_kb'' =
     [''nodes'', ''packets_sent'', ''packets_received'', ''pdr'', ''avg_delay_ms'',
      ''throughput_kbps'', ''total_energy_mj'', ''computation_ms'', ''memory_kb'']"
    by (simp add: split_row.simps comma_def)
  show "row_text fmt (results_row nIoTNodes g st) =
     show_u32 nIoTNodes @ '','' @ show_u32 (g_totalPacketsSent g) @ '','' @
     show_u32 (g_totalPacketsReceived g) @ '','' @ fmt (pdr st) @ '','' @
     fmt (avgDelay st) @ '','' @ fmt (totalThroughput (totals st)) @ '','' @
     fmt (totalEnergy st) @ '','' @ fmt (avg_computation_time_ms (g_metrics g)) @ '','' @
     fmt (dmul (avg_memory_kb (g_metrics g)) (double_of_u32 nIoTNodes)) @ ''\<newline>''"
    by (simp add: row_text_def results_row_def)
  have nonempty: "row_text fmt cells \<noteq> []" for cells
    by (simp add: row_text_def)
  show "case open_append file of
      Failed \<Rightarrow> True
    | Opened bytes \<Rightarrow>
        save_csv fmt (save_csv fmt file nIoTNodes g st) nIoTNodes' g' st' =
          Existing (bytes @
            (if bytes = []
             then ''nodes,packets_sent,packets_received,pdr,avg_delay_ms,throughput_kbps,total_energy_mj,computation_ms,memory_kb\<newline>''
             else []) @
            row_text fmt (results_row nIoTNodes g st) @
            row_text fmt (results_row nIoTNodes' g' st'))"
    by (cases "file") (simp_all add: save_csv_result nonempty csv_header_def)
qed

text \<open>
  C9, as amended. If the results file cannot be opened for appending, nothing is written
  and nothing is reported: the program returns the same exit status as in a run that
  wrote its row, which is 0 whenever the program returns at all (it does not return
  only when the loader's exception ended it before the simulation).
\<close>

theorem unwritable_results_not_reported:
  "map_sum id exit_code (main fmt conv nIoTNodes simTime csv Cannot_open arrivals stats) =
   map_sum id exit_code (main fmt conv nIoTNodes simTime csv results arrivals stats) \<and>
   (case main fmt conv nIoTNodes simTime csv Cannot_open arrivals stats of
      Inl e \<Rightarrow> LoadMetricsFromCSV conv csv LweMetrics_init = Inl e
    | Inr r \<Rightarrow> exit_code r = 0 \<and> results_file r = Cannot_open)"
proof
  show "map_sum id exit_code (main fmt conv nIoTNodes simTime csv Cannot_open arrivals stats) =
   map_sum id exit_code (main fmt conv nIoTNodes simTime csv results arrivals stats)"
    by (simp add: main_def split: sum.splits prod.splits)
  show "case main fmt conv nIoTNodes simTime csv Cannot_open arrivals stats of
      Inl e \<Rightarrow> LoadMetricsFromCSV conv csv LweMetrics_init = Inl e
    | Inr r \<Rightarrow> exit_code r = 0 \<and> results_file r = Cannot_open"
    by (auto simp: main_def simulate_def save_csv_result globals_init_def Let_def
        split: sum.splits prod.splits)
qed

text \<open>
  C9 as stated fails: a run with two nodes whose results file cannot be opened returns
  0 and leaves the file as it was, and the same run with a file that can be created
  returns 0 as well. The conversion of doubles to text plays no part in either result.
\<close>

theorem unwritable_results_exit_code:
  "main (\<lambda>d. ''0'') stod 2 (Val 10) None Cannot_open 2
     [(1, \<lparr>txPackets = 1, rxPackets = 1, delaySum = Val 0.01, rxBytes = 16640\<rparr>),
      (2, \<lparr>txPackets = 1, rxPackets = 1, delaySum = Val 0.01, rxBytes = 16640\<rparr>)] =
     Inr \<lparr>exit_code = 0, results_file = Cannot_open\<rparr> \<and>
   map_sum id exit_code
     (main (\<lambda>d. ''0'') stod 2 (Val 10) None Missing 2
        [(1, \<lparr>txPackets = 1, rxPackets = 1, delaySum = Val 0.01, rxBytes = 16640\<rparr>),
         (2, \<lparr>txPackets = 1, rxPackets = 1, delaySum = Val 0.01, rxBytes = 16640\<rparr>)]) = Inr 0"
  by (simp add: main_def simulate_def LoadMetricsFromCSV_def save_csv_result Let_def)

end
